theory Spec2Isabelle
  imports Complex_Main
begin

section \<open>Python values shared by both modules\<close>

text \<open>
  The two exceptions the modelled functions can raise: \<^verbatim>\<open>IndexError\<close> from a list
  subscript out of range and \<^verbatim>\<open>ValueError\<close> from \<^verbatim>\<open>str.index\<close> on a missing substring.
\<close>

datatype error = IndexError | ValueError

section \<open>The camera sequencer: \<^verbatim>\<open>dwmaya/__track.py\<close>\<close>

subsection \<open>The scene as the host application reports it\<close>

text \<open>
  A shot node of the scene. The Python code handles a shot through its node name and reads
  the attributes with \<^verbatim>\<open>cmds.getAttr(shot + ".track")\<close>,
  \<^verbatim>\<open>cmds.getAttr(shot + ".sequenceStartFrame")\<close> and
  \<^verbatim>\<open>cmds.getAttr(shot + ".sequenceEndFrame")\<close>; the record stands for the node and a
  field for the attribute read. Frames are Python floats that are only ever compared; they
  are modelled by the reals, whose order is that of the finite floats.
\<close>

record shot =
  name :: string
  track :: int
  sequenceStartFrame :: real
  sequenceEndFrame :: real

text \<open>
  \<^verbatim>\<open>cmds.ls(type="shot")\<close> and \<^verbatim>\<open>cmds.shotTrack(query=True, numTracks=True)\<close>.
\<close>

record scene =
  ls_shots :: "shot list"
  numTracks :: nat

subsection \<open>Python list objects\<close>

text \<open>
  Python lists are objects: a variable or a list slot holds a reference, and \<^verbatim>\<open>append\<close>
  mutates the object every holder of the reference sees. The store maps an address to the
  content of the list object that lives there; \<open>lim\<close> is the next free address.
\<close>

type_synonym addr = nat

record store =
  cells :: "addr \<Rightarrow> shot list"
  lim :: addr

definition empty_store :: store where
  "empty_store = \<lparr>cells = (\<lambda>_. []), lim = 0\<rparr>"

text \<open>The list display \<^verbatim>\<open>[]\<close>: one fresh, empty list object.\<close>

definition new_list :: "store \<Rightarrow> addr \<times> store" where
  "new_list st = (lim st, st\<lparr>cells := (cells st)(lim st := []), lim := Suc (lim st)\<rparr>)"

text \<open>\<^verbatim>\<open>lst.append(x)\<close> on the object at address \<open>a\<close>.\<close>

definition list_append :: "addr \<Rightarrow> shot \<Rightarrow> store \<Rightarrow> store" where
  "list_append a x st = st\<lparr>cells := (cells st)(a := cells st a @ [x])\<rparr>"

text \<open>
  The subscript \<^verbatim>\<open>xs[i]\<close>: an index from \<open>-len\<close> up to \<open>len - 1\<close> is served (the negative
  ones from the end), any other raises \<^verbatim>\<open>IndexError\<close>.
\<close>

definition subscript :: "'a list \<Rightarrow> int \<Rightarrow> error + 'a" where
  "subscript xs i =
     (if 0 \<le> i \<and> i < int (length xs) then Inr (xs ! nat i)
      else if - int (length xs) \<le> i \<and> i < 0 then Inr (xs ! nat (int (length xs) + i))
      else Inl IndexError)"

subsection \<open>\<^verbatim>\<open>list_track_shots\<close>\<close>

definition list_track_shots :: "scene \<Rightarrow> int \<Rightarrow> shot list" where
  "list_track_shots sc t = filter (\<lambda>shot. track shot = t) (ls_shots sc)"

subsection \<open>\<^verbatim>\<open>tracks_to_lists\<close>\<close>

text \<open>
  The loop \<^verbatim>\<open>for shot in shots: track = getAttr(shot + ".track") - 1; tracks[track].append(shot)\<close>.
  The outer list \<open>tracks\<close> is a list of references and is never assigned to.
\<close>

fun fill_tracks :: "addr list \<Rightarrow> shot list \<Rightarrow> store \<Rightarrow> error + store" where
  "fill_tracks tracks [] st = Inr st"
| "fill_tracks tracks (shot # shots) st =
     (case subscript tracks (track shot - 1) of
        Inl e \<Rightarrow> Inl e
      | Inr a \<Rightarrow> fill_tracks tracks shots (list_append a shot st))"

text \<open>
  \<^verbatim>\<open>tracks = [[]] * numTracks\<close> evaluates the display \<^verbatim>\<open>[[]]\<close> once, which creates one
  inner list object, and repeats the reference to it.
\<close>

definition tracks_to_lists :: "scene \<Rightarrow> error + (addr list \<times> store)" where
  "tracks_to_lists sc =
     (let shots = ls_shots sc;
          (a, st) = new_list empty_store;
          tracks = replicate (numTracks sc) a
      in case fill_tracks tracks shots st of
           Inl e \<Rightarrow> Inl e
         | Inr st' \<Rightarrow> Inr (tracks, st'))"

subsection \<open>\<^verbatim>\<open>find_track_with_free_range\<close>\<close>

text \<open>The test of lines 47 to 49; a chained comparison is the conjunction of its links.\<close>

definition overlaps :: "real \<Rightarrow> real \<Rightarrow> shot \<Rightarrow> bool" where
  "overlaps start_frame end_frame shot =
     (let shot_start_frame = sequenceStartFrame shot;
          shot_end_frame = sequenceEndFrame shot
      in (start_frame \<le> shot_start_frame \<and> shot_start_frame \<le> end_frame) \<or>
         (start_frame \<le> shot_end_frame \<and> shot_end_frame \<le> end_frame))"

text \<open>The inner loop; \<open>True\<close> is the \<^verbatim>\<open>break\<close>, \<open>False\<close> reaching the loop's \<^verbatim>\<open>else\<close>.\<close>

fun shot_loop :: "real \<Rightarrow> real \<Rightarrow> shot list \<Rightarrow> bool" where
  "shot_loop start_frame end_frame [] = False"
| "shot_loop start_frame end_frame (shot # rest) =
     (if overlaps start_frame end_frame shot then True
      else shot_loop start_frame end_frame rest)"

text \<open>
  The outer loop over \<^verbatim>\<open>enumerate(tracks)\<close>, with the counter \<open>i\<close>; falling off its end
  returns \<^verbatim>\<open>None\<close>.
\<close>

fun track_loop :: "real \<Rightarrow> real \<Rightarrow> store \<Rightarrow> nat \<Rightarrow> addr list \<Rightarrow> nat option" where
  "track_loop start_frame end_frame st i [] = None"
| "track_loop start_frame end_frame st i (a # rest) =
     (if shot_loop start_frame end_frame (cells st a)
      then track_loop start_frame end_frame st (Suc i) rest
      else Some (i + 1))"

definition find_track_with_free_range :: "real \<Rightarrow> real \<Rightarrow> scene \<Rightarrow> error + nat option" where
  "find_track_with_free_range start_frame end_frame sc =
     (case tracks_to_lists sc of
        Inl e \<Rightarrow> Inl e
      | Inr (tracks, st) \<Rightarrow> Inr (track_loop start_frame end_frame st 0 tracks))"

subsection \<open>Vocabulary of the statements about the sequencer\<close>

text \<open>
  The subscripts \<^verbatim>\<open>tracks[track - 1]\<close> Python serves on a list of \<open>n\<close> buckets: the track
  attribute lies between \<open>1 - n\<close> and \<open>n\<close>.
\<close>

definition track_ok :: "nat \<Rightarrow> shot \<Rightarrow> bool" where
  "track_ok n shot = (1 - int n \<le> track shot \<and> track shot \<le> int n)"

text \<open>A scene with valid shots: every shot sits on one of the tracks \<open>1, \<dots>, numTracks\<close>.\<close>

definition track_indices_valid :: "scene \<Rightarrow> bool" where
  "track_indices_valid sc =
     list_all (\<lambda>shot. 1 \<le> track shot \<and> track shot \<le> int (numTracks sc)) (ls_shots sc)"

text \<open>
  The specification's words, for comparison with the code: the 1-based index of the first
  track none of whose shots overlaps the range, the shots of a track being those
  \<open>list_track_shots\<close> reports for it; \<open>None\<close> when every track has an overlapping shot.
\<close>

definition first_free_track :: "real \<Rightarrow> real \<Rightarrow> scene \<Rightarrow> nat option" where
  "first_free_track start_frame end_frame sc =
     List.find (\<lambda>t. \<not> list_ex (overlaps start_frame end_frame) (list_track_shots sc (int t)))
       [1 ..< Suc (numTracks sc)]"

section \<open>UDIM texture paths: \<^verbatim>\<open>dwmaya/shading.py\<close>\<close>

subsection \<open>Python strings\<close>

text \<open>
  A path is a string of 8-bit characters. \<^verbatim>\<open>str.lower\<close> maps the ASCII capitals to their
  small letters and leaves every other character alone.
\<close>

definition lower_char :: "char \<Rightarrow> char" where
  "lower_char c =
     (case map_of (zip ''ABCDEFGHIJKLMNOPQRSTUVWXYZ'' ''abcdefghijklmnopqrstuvwxyz'') c of
        None \<Rightarrow> c
      | Some l \<Rightarrow> l)"

definition lower :: "string \<Rightarrow> string" where
  "lower s = map lower_char s"

fun startswith :: "string \<Rightarrow> string \<Rightarrow> bool" where
  "startswith s [] = True"
| "startswith [] (p # ps) = False"
| "startswith (c # cs) (p # ps) = (c = p \<and> startswith cs ps)"

text \<open>\<^verbatim>\<open>s.find(sub)\<close>: the offset of the leftmost occurrence of \<open>sub\<close> in \<open>s\<close>, if any.\<close>

fun str_find :: "string \<Rightarrow> string \<Rightarrow> nat option" where
  "str_find [] sub = (if sub = [] then Some 0 else None)"
| "str_find (c # cs) sub =
     (if startswith (c # cs) sub then Some 0 else map_option Suc (str_find cs sub))"

text \<open>\<^verbatim>\<open>sub in s\<close>.\<close>

definition str_contains :: "string \<Rightarrow> string \<Rightarrow> bool" where
  "str_contains sub s = (str_find s sub \<noteq> None)"

text \<open>\<^verbatim>\<open>s.index(sub)\<close>, which raises \<^verbatim>\<open>ValueError\<close> when \<open>sub\<close> does not occur in \<open>s\<close>.\<close>

definition str_index :: "string \<Rightarrow> string \<Rightarrow> error + nat" where
  "str_index s sub = (case str_find s sub of None \<Rightarrow> Inl ValueError | Some i \<Rightarrow> Inr i)"

text \<open>\<^verbatim>\<open>s.rfind(c)\<close> for a single character: the offset of its last occurrence, or \<open>-1\<close>.\<close>

definition rfind :: "string \<Rightarrow> char \<Rightarrow> int" where
  "rfind s c =
     (case str_find (rev s) [c] of None \<Rightarrow> - 1 | Some k \<Rightarrow> int (length s) - 1 - int k)"

text \<open>\<^verbatim>\<open>s.replace(old, new)\<close> for single characters.\<close>

definition str_replace_char :: "char \<Rightarrow> char \<Rightarrow> string \<Rightarrow> string" where
  "str_replace_char old new s = map (\<lambda>c. if c = old then new else c) s"

subsection \<open>\<^verbatim>\<open>os.path.splitext\<close>\<close>

text \<open>
  The standard library splits at the last dot of the last path component, unless that
  component consists of leading dots only up to there. The separators are \<^verbatim>\<open>/\<close> on POSIX,
  and the backslash and \<^verbatim>\<open>/\<close> on Windows.
\<close>

datatype os_flavour = Posix | Nt

fun seps :: "os_flavour \<Rightarrow> char list" where
  "seps Posix = [CHR ''/'']"
| "seps Nt = [CHR 0x5C, CHR ''/'']"

definition splitext :: "os_flavour \<Rightarrow> string \<Rightarrow> string \<times> string" where
  "splitext fl p =
     (let sepIndex = fold (\<lambda>sep m. max m (rfind p sep)) (seps fl) (- 1);
          dotIndex = rfind p (CHR ''.'')
      in if dotIndex > sepIndex \<and>
            list_ex (\<lambda>c. c \<noteq> CHR ''.'')
              (take (nat (dotIndex - (sepIndex + 1))) (drop (nat (sepIndex + 1)) p))
         then (take (nat dotIndex) p, drop (nat dotIndex) p)
         else (p, []))"

subsection \<open>The regular expressions of the module\<close>

text \<open>
  The three patterns use literal characters, the dot (any character but the newline),
  \<^verbatim>\<open>\d\<close> (a decimal digit), bounded and unbounded repetition of one of these, and \<^verbatim>\<open>$\<close>
  (the end of the string, or the position before a newline that ends it). A pattern is the
  list of its pieces.
\<close>

datatype atom = Lit char | Dot | Digit

fun atom_matches :: "atom \<Rightarrow> char \<Rightarrow> bool" where
  "atom_matches (Lit a) c = (c = a)"
| "atom_matches Dot c = (c \<noteq> CHR 0x0A)"
| "atom_matches Digit c = (c \<in> set ''0123456789'')"

datatype piece = One atom | Rep atom nat nat | Star atom | Eol

text \<open>
  \<^verbatim>\<open>re.compile(p).match(s)\<close> as a truth value: some way of matching the pattern exists that
  starts at the first character of \<open>s\<close>. The match need not reach the end of \<open>s\<close>.
\<close>

fun re_match :: "piece list \<Rightarrow> string \<Rightarrow> bool" where
  "re_match [] s = True"
| "re_match (One a # ps) [] = False"
| "re_match (One a # ps) (c # cs) = (atom_matches a c \<and> re_match ps cs)"
| "re_match (Star a # ps) [] = re_match ps []"
| "re_match (Star a # ps) (c # cs) =
     ((atom_matches a c \<and> re_match (Star a # ps) cs) \<or> re_match ps (c # cs))"
| "re_match (Rep a m n # ps) [] = (m = 0 \<and> re_match ps [])"
| "re_match (Rep a m n # ps) (c # cs) =
     ((0 < n \<and> atom_matches a c \<and> re_match (Rep a (m - 1) (n - 1) # ps) cs) \<or>
      (m = 0 \<and> re_match ps (c # cs)))"
| "re_match (Eol # ps) s = ((s = [] \<or> s = [CHR 0x0A]) \<and> re_match ps s)"

text \<open>
  \<^verbatim>\<open>re.split(p, s)[0]\<close> for a pattern that matches no empty string: the text before the
  leftmost match, the whole string when there is none.
\<close>

fun re_split_head :: "piece list \<Rightarrow> string \<Rightarrow> string" where
  "re_split_head p [] = []"
| "re_split_head p (c # cs) = (if re_match p (c # cs) then [] else c # re_split_head p cs)"

text \<open>\<^verbatim>\<open>UDIM_EXTENSION_PATTERN = r'\.1001\..{2,4}$'\<close>\<close>

definition UDIM_EXTENSION_PATTERN :: "piece list" where
  "UDIM_EXTENSION_PATTERN = map (\<lambda>c. One (Lit c)) ''.1001.'' @ [Rep Dot 2 4, Eol]"

text \<open>\<^verbatim>\<open>UDIM_UV_PATTERN = r'_u<u>_v<v>'\<close>, used as a plain substring.\<close>

definition UDIM_UV_PATTERN :: string where
  "UDIM_UV_PATTERN = ''_u<u>_v<v>''"

text \<open>\<^verbatim>\<open>UDIM_UV_RE_PATTERN = r'_u\d_v\d'\<close>\<close>

definition UDIM_UV_RE_PATTERN :: "piece list" where
  "UDIM_UV_RE_PATTERN =
     [One (Lit (CHR ''_'')), One (Lit (CHR ''u'')), One Digit,
      One (Lit (CHR ''_'')), One (Lit (CHR ''v'')), One Digit]"

subsection \<open>The file system\<close>

text \<open>
  \<^verbatim>\<open>glob.glob\<close> is the only access to the disk. The directory state is the table of what
  \<^verbatim>\<open>glob.glob\<close> answers to each pattern; \<open>glob_calls\<close> records the patterns asked for, so
  that a run that does not touch the disk leaves the record as it was.
\<close>

record filesystem =
  flavour :: os_flavour
  glob_table :: "string \<Rightarrow> string list"
  glob_calls :: "string list"

definition glob_glob :: "string \<Rightarrow> filesystem \<Rightarrow> string list \<times> filesystem" where
  "glob_glob pattern fs = (glob_table fs pattern, fs\<lparr>glob_calls := glob_calls fs @ [pattern]\<rparr>)"

subsection \<open>\<^verbatim>\<open>get_udim_filepaths\<close>\<close>

text \<open>
  Lines 176 to 182: the value of the variable \<^verbatim>\<open>path_start_length\<close> after the
  \<^verbatim>\<open>if\<close>/\<^verbatim>\<open>elif\<close> chain, \<open>None\<close> when no branch is taken.
\<close>

definition udim_path_start_length :: "string \<Rightarrow> string \<Rightarrow> error + nat option" where
  "udim_path_start_length extension path =
     (if re_match UDIM_EXTENSION_PATTERN path then
        map_sum id Some (str_index (lower path) (''1001'' @ extension))
      else if str_contains UDIM_UV_PATTERN (lower path) then
        map_sum id Some (str_index (lower path) UDIM_UV_PATTERN)
      else if re_match ([Star Dot] @ UDIM_UV_RE_PATTERN @ [Star Dot]) path then
        Inr (Some (length (re_split_head UDIM_UV_RE_PATTERN path)))
      else Inr None)"

text \<open>
  The whole function. \<^verbatim>\<open>if path_start_length:\<close> is false for \<^verbatim>\<open>None\<close> and for 0.
\<close>

definition get_udim_filepaths :: "string \<Rightarrow> filesystem \<Rightarrow> (error + string list) \<times> filesystem" where
  "get_udim_filepaths path fs =
     (let extension = snd (splitext (flavour fs) path) in
      case udim_path_start_length extension path of
        Inl e \<Rightarrow> (Inl e, fs)
      | Inr None \<Rightarrow> (Inr [], fs)
      | Inr (Some path_start_length) \<Rightarrow>
          if path_start_length = 0 then (Inr [], fs)
          else
            (let pattern = take path_start_length path @ ''*'' @ extension;
                 (found, fs') = glob_glob pattern fs
             in (Inr (map (str_replace_char (CHR 0x5C) (CHR ''/'')) found), fs')))"

section \<open>Properties of the sequencer functions\<close>

lemma subscript_replicate:
  "subscript (replicate n a) i = (if - int n \<le> i \<and> i < int n then Inr a else Inl IndexError)"
  by (auto simp: subscript_def)

lemma subscript_track:
  "subscript (replicate n a) (track shot - 1) = (if track_ok n shot then Inr a else Inl IndexError)"
  unfolding subscript_replicate track_ok_def by auto

text \<open>Every append of the fill loop lands in the one list object all the slots refer to.\<close>

lemma fill_tracks_replicate:
  "list_all (track_ok n) shots \<Longrightarrow>
   fill_tracks (replicate n a) shots st = Inr (st\<lparr>cells := (cells st)(a := cells st a @ shots)\<rparr>)"
proof (induction shots arbitrary: st)
  case Nil
  show ?case by simp
next
  case (Cons shot shots)
  from Cons.prems have rest: "list_all (track_ok n) shots" and ok: "track_ok n shot"
    by simp_all
  have "fill_tracks (replicate n a) (shot # shots) st =
        fill_tracks (replicate n a) shots (list_append a shot st)"
    by (simp add: subscript_track ok)
  also have "\<dots> = Inr (st\<lparr>cells := (cells st)(a := (cells st a @ [shot]) @ shots)\<rparr>)"
    by (simp add: Cons.IH [OF rest] list_append_def fun_upd_def cong: if_cong)
  finally show ?case by (simp add: fun_upd_def)
qed

lemma fill_tracks_raises:
  "\<not> list_all (track_ok n) shots \<Longrightarrow> fill_tracks (replicate n a) shots st = Inl IndexError"
proof (induction shots arbitrary: st)
  case Nil
  then show ?case by simp
next
  case (Cons shot shots)
  show ?case
  proof (cases "track_ok n shot")
    case True
    with Cons.prems have "\<not> list_all (track_ok n) shots" by simp
    then show ?thesis by (simp add: subscript_track True Cons.IH)
  next
    case False
    then show ?thesis by (simp add: subscript_track)
  qed
qed

lemma tracks_to_lists_eq:
  "tracks_to_lists sc =
     (if list_all (track_ok (numTracks sc)) (ls_shots sc)
      then Inr (replicate (numTracks sc) 0, \<lparr>cells = (\<lambda>_. [])(0 := ls_shots sc), lim = 1\<rparr>)
      else Inl IndexError)"
  by (simp add: tracks_to_lists_def new_list_def empty_store_def
      fill_tracks_replicate fill_tracks_raises)

lemma shot_loop_list_ex: "shot_loop s e shots = list_ex (overlaps s e) shots"
  by (induction shots) simp_all

lemma track_loop_replicate:
  "track_loop s e st i (replicate n a) =
     (if n = 0 \<or> shot_loop s e (cells st a) then None else Some (i + 1))"
  by (induction n arbitrary: i) simp_all

text \<open>
  What the function computes on every scene: it raises exactly when a subscript is out of
  range, and otherwise answers from the single shared bucket.
\<close>

lemma find_track_with_free_range_eq:
  "find_track_with_free_range s e sc =
     (if list_all (track_ok (numTracks sc)) (ls_shots sc)
      then Inr (if numTracks sc = 0 \<or> list_ex (overlaps s e) (ls_shots sc) then None else Some 1)
      else Inl IndexError)"
  by (simp add: find_track_with_free_range_def tracks_to_lists_eq track_loop_replicate
      shot_loop_list_ex)

lemma track_indices_valid_ok:
  "track_indices_valid sc \<Longrightarrow> list_all (track_ok (numTracks sc)) (ls_shots sc)"
  unfolding track_indices_valid_def track_ok_def list_all_iff by auto

text \<open>
  On a scene with valid shots the function returns, whatever the range: it is total there.
\<close>

lemma find_track_with_free_range_total:
  "track_indices_valid sc \<Longrightarrow> \<exists>r. find_track_with_free_range s e sc = Inr r"
  by (simp add: find_track_with_free_range_eq track_indices_valid_ok)

text \<open>
  Claim C1, on a scene the code answers wrongly. Two tracks; the shot of track 1 (frames 5
  to 15) overlaps the range 0 to 10, the shot of track 2 (frames 20 to 30) does not. The
  first track none of whose shots overlaps the range is track 2, and the function returns
  \<^verbatim>\<open>None\<close>: both buckets are the same list object and hold both shots.
\<close>

theorem find_track_misses_free_second_track:
  "find_track_with_free_range 0 10 \<lparr>ls_shots =
       [\<lparr>name = ''shot1'', track = 1, sequenceStartFrame = 5, sequenceEndFrame = 15\<rparr>,
        \<lparr>name = ''shot2'', track = 2, sequenceStartFrame = 20, sequenceEndFrame = 30\<rparr>],
     numTracks = 2\<rparr> = Inr None \<and>
   first_free_track 0 10 \<lparr>ls_shots =
       [\<lparr>name = ''shot1'', track = 1, sequenceStartFrame = 5, sequenceEndFrame = 15\<rparr>,
        \<lparr>name = ''shot2'', track = 2, sequenceStartFrame = 20, sequenceEndFrame = 30\<rparr>],
     numTracks = 2\<rparr> = Some 2"
  by (simp add: find_track_with_free_range_eq track_ok_def overlaps_def first_free_track_def
      list_track_shots_def upt_rec)

text \<open>
  Claim C4: the overlap test holds exactly when the start frame or the end frame of the shot
  lies in the closed range. A shot that starts on the last frame of the range, or ends on
  its first frame, overlaps; a shot that starts before the range and ends after it does
  not. The inner loop breaks exactly when some shot of the bucket passes the test, and on
  a scene of one track and one shot the function answers accordingly.
\<close>

theorem overlap_test_checks_endpoints:
  "overlaps s e shot =
     (sequenceStartFrame shot \<in> {s..e} \<or> sequenceEndFrame shot \<in> {s..e}) \<and>
   (s \<le> e \<and> sequenceStartFrame shot = e \<longrightarrow> overlaps s e shot) \<and>
   (s \<le> e \<and> sequenceEndFrame shot = s \<longrightarrow> overlaps s e shot) \<and>
   (sequenceStartFrame shot < s \<and> e < sequenceEndFrame shot \<longrightarrow> \<not> overlaps s e shot) \<and>
   shot_loop s e shots = (\<exists>x \<in> set shots.
     sequenceStartFrame x \<in> {s..e} \<or> sequenceEndFrame x \<in> {s..e}) \<and>
   (track shot = 1 \<longrightarrow>
     find_track_with_free_range s e \<lparr>ls_shots = [shot], numTracks = 1\<rparr> =
       Inr (if sequenceStartFrame shot \<in> {s..e} \<or> sequenceEndFrame shot \<in> {s..e}
            then None else Some 1))"
proof -
  have test: "overlaps s e x =
      (sequenceStartFrame x \<in> {s..e} \<or> sequenceEndFrame x \<in> {s..e})" for x
    by (simp add: overlaps_def Let_def)
  have loop: "shot_loop s e shots = (\<exists>x \<in> set shots.
      sequenceStartFrame x \<in> {s..e} \<or> sequenceEndFrame x \<in> {s..e})"
    by (simp add: shot_loop_list_ex list_ex_iff test)
  have one: "track shot = 1 \<longrightarrow>
     find_track_with_free_range s e \<lparr>ls_shots = [shot], numTracks = 1\<rparr> =
       Inr (if sequenceStartFrame shot \<in> {s..e} \<or> sequenceEndFrame shot \<in> {s..e}
            then None else Some 1)"
    by (simp add: find_track_with_free_range_eq track_ok_def test)
  have bounds: "(s \<le> e \<and> sequenceStartFrame shot = e \<longrightarrow> overlaps s e shot) \<and>
   (s \<le> e \<and> sequenceEndFrame shot = s \<longrightarrow> overlaps s e shot) \<and>
   (sequenceStartFrame shot < s \<and> e < sequenceEndFrame shot \<longrightarrow> \<not> overlaps s e shot)"
    unfolding test by auto
  from test [of shot] loop one bounds show ?thesis by simp
qed

theorem overlap_test_checks_endpoints_witness:
  "overlaps 0 10 \<lparr>name = ''a'', track = 1, sequenceStartFrame = 10, sequenceEndFrame = 20\<rparr> \<and>
   overlaps 0 10 \<lparr>name = ''b'', track = 1, sequenceStartFrame = -5, sequenceEndFrame = 0\<rparr> \<and>
   \<not> overlaps 0 10 \<lparr>name = ''c'', track = 1, sequenceStartFrame = -5, sequenceEndFrame = 20\<rparr> \<and>
   find_track_with_free_range 0 10
     \<lparr>ls_shots = [\<lparr>name = ''c'', track = 1, sequenceStartFrame = -5, sequenceEndFrame = 20\<rparr>],
      numTracks = 1\<rparr> = Inr (Some 1)"
  using
    overlap_test_checks_endpoints [of 0 10
      "\<lparr>name = ''a'', track = 1, sequenceStartFrame = 10, sequenceEndFrame = 20\<rparr>" "[]"]
    overlap_test_checks_endpoints [of 0 10
      "\<lparr>name = ''b'', track = 1, sequenceStartFrame = -5, sequenceEndFrame = 0\<rparr>" "[]"]
    overlap_test_checks_endpoints [of 0 10
      "\<lparr>name = ''c'', track = 1, sequenceStartFrame = -5, sequenceEndFrame = 20\<rparr>" "[]"]
  by simp

text \<open>
  Claim C5, on a scene the code answers wrongly. Track 1 holds a shot (frames 5 to 15) that
  overlaps the range 0 to 10 and track 2 holds no shot at all, so track 2 is the free one;
  the function returns \<^verbatim>\<open>None\<close>, since the bucket of track 2 is the list the shot of
  track 1 was appended to.
\<close>

theorem find_track_misses_empty_track:
  "list_track_shots \<lparr>ls_shots =
       [\<lparr>name = ''shot1'', track = 1, sequenceStartFrame = 5, sequenceEndFrame = 15\<rparr>],
     numTracks = 2\<rparr> 2 = [] \<and>
   find_track_with_free_range 0 10 \<lparr>ls_shots =
       [\<lparr>name = ''shot1'', track = 1, sequenceStartFrame = 5, sequenceEndFrame = 15\<rparr>],
     numTracks = 2\<rparr> = Inr None \<and>
   first_free_track 0 10 \<lparr>ls_shots =
       [\<lparr>name = ''shot1'', track = 1, sequenceStartFrame = 5, sequenceEndFrame = 15\<rparr>],
     numTracks = 2\<rparr> = Some 2"
  by (simp add: find_track_with_free_range_eq track_ok_def overlaps_def first_free_track_def
      list_track_shots_def upt_rec)

text \<open>
  Claim C9: on a scene with at least one track whose shots all sit on tracks 1 to
  \<open>numTracks\<close>, every slot of the list \<open>tracks_to_lists\<close> returns holds the same reference,
  and the list object it refers to holds every shot of the scene, in the order of
  \<^verbatim>\<open>cmds.ls\<close>: each bucket contains all the shots, not only those of its track.
\<close>

theorem tracks_to_lists_buckets_shared:
  "0 < numTracks sc \<and> track_indices_valid sc \<longrightarrow>
   tracks_to_lists sc =
     Inr (replicate (numTracks sc) 0, \<lparr>cells = (\<lambda>_. [])(0 := ls_shots sc), lim = 1\<rparr>) \<and>
   (\<exists>tracks st. tracks_to_lists sc = Inr (tracks, st) \<and> length tracks = numTracks sc \<and>
      (\<forall>i < numTracks sc. tracks ! i = tracks ! 0 \<and> cells st (tracks ! i) = ls_shots sc))"
proof (intro impI, elim conjE)
  assume pos: "0 < numTracks sc" and valid: "track_indices_valid sc"
  have eq: "tracks_to_lists sc =
      Inr (replicate (numTracks sc) 0, \<lparr>cells = (\<lambda>_. [])(0 := ls_shots sc), lim = 1\<rparr>)"
    using track_indices_valid_ok [OF valid] by (simp add: tracks_to_lists_eq)
  have "\<exists>tracks st. tracks_to_lists sc = Inr (tracks, st) \<and> length tracks = numTracks sc \<and>
      (\<forall>i < numTracks sc. tracks ! i = tracks ! 0 \<and> cells st (tracks ! i) = ls_shots sc)"
    unfolding eq using pos by simp
  with eq show "tracks_to_lists sc =
     Inr (replicate (numTracks sc) 0, \<lparr>cells = (\<lambda>_. [])(0 := ls_shots sc), lim = 1\<rparr>) \<and>
   (\<exists>tracks st. tracks_to_lists sc = Inr (tracks, st) \<and> length tracks = numTracks sc \<and>
      (\<forall>i < numTracks sc. tracks ! i = tracks ! 0 \<and> cells st (tracks ! i) = ls_shots sc))"
    by blast
qed

theorem tracks_to_lists_buckets_shared_witness:
  "tracks_to_lists \<lparr>ls_shots =
       [\<lparr>name = ''shot1'', track = 1, sequenceStartFrame = 1, sequenceEndFrame = 10\<rparr>,
        \<lparr>name = ''shot2'', track = 2, sequenceStartFrame = 20, sequenceEndFrame = 30\<rparr>],
     numTracks = 2\<rparr> =
   Inr ([0, 0], \<lparr>cells = (\<lambda>_. [])(0 :=
       [\<lparr>name = ''shot1'', track = 1, sequenceStartFrame = 1, sequenceEndFrame = 10\<rparr>,
        \<lparr>name = ''shot2'', track = 2, sequenceStartFrame = 20, sequenceEndFrame = 30\<rparr>]),
     lim = 1\<rparr>)"
  using tracks_to_lists_buckets_shared [of "\<lparr>ls_shots =
       [\<lparr>name = ''shot1'', track = 1, sequenceStartFrame = 1, sequenceEndFrame = 10\<rparr>,
        \<lparr>name = ''shot2'', track = 2, sequenceStartFrame = 20, sequenceEndFrame = 30\<rparr>],
     numTracks = 2\<rparr>"]
  by (simp add: track_indices_valid_def numeral_2_eq_2)

text \<open>
  Claim C10: on a scene with at least one track the function returns \<^verbatim>\<open>None\<close> or 1 and no
  other index. It raises \<^verbatim>\<open>IndexError\<close> exactly when a track attribute is outside the
  subscripts Python serves; otherwise it returns \<^verbatim>\<open>None\<close> when some shot of the scene, on
  whatever track, overlaps the range, and 1 when none does. On a scene with valid shots it
  always returns.
\<close>

theorem find_track_returns_none_or_one:
  "0 < numTracks sc \<longrightarrow>
   find_track_with_free_range s e sc =
     (if list_all (track_ok (numTracks sc)) (ls_shots sc)
      then Inr (if list_ex (overlaps s e) (ls_shots sc) then None else Some 1)
      else Inl IndexError) \<and>
   (\<forall>k. find_track_with_free_range s e sc = Inr (Some k) \<longrightarrow> k = 1) \<and>
   (track_indices_valid sc \<longrightarrow>
      find_track_with_free_range s e sc = Inr None \<or>
      find_track_with_free_range s e sc = Inr (Some 1))"
  using track_indices_valid_ok [of sc]
  by (auto simp: find_track_with_free_range_eq split: if_splits)

theorem find_track_returns_none_or_one_witness:
  "track_indices_valid \<lparr>ls_shots =
       [\<lparr>name = ''shot1'', track = 1, sequenceStartFrame = 20, sequenceEndFrame = 30\<rparr>,
        \<lparr>name = ''shot2'', track = 3, sequenceStartFrame = 40, sequenceEndFrame = 50\<rparr>],
     numTracks = 3\<rparr> \<and>
   find_track_with_free_range 0 10 \<lparr>ls_shots =
       [\<lparr>name = ''shot1'', track = 1, sequenceStartFrame = 20, sequenceEndFrame = 30\<rparr>,
        \<lparr>name = ''shot2'', track = 3, sequenceStartFrame = 40, sequenceEndFrame = 50\<rparr>],
     numTracks = 3\<rparr> = Inr (Some 1) \<and>
   find_track_with_free_range 0 10 \<lparr>ls_shots =
       [\<lparr>name = ''shot1'', track = 1, sequenceStartFrame = 20, sequenceEndFrame = 30\<rparr>,
        \<lparr>name = ''shot2'', track = 3, sequenceStartFrame = 5, sequenceEndFrame = 50\<rparr>],
     numTracks = 3\<rparr> = Inr None"
proof -
  let ?free = "\<lparr>ls_shots =
       [\<lparr>name = ''shot1'', track = 1, sequenceStartFrame = 20, sequenceEndFrame = 30\<rparr>,
        \<lparr>name = ''shot2'', track = 3, sequenceStartFrame = 40, sequenceEndFrame = 50\<rparr>],
     numTracks = 3\<rparr>"
  let ?busy = "\<lparr>ls_shots =
       [\<lparr>name = ''shot1'', track = 1, sequenceStartFrame = 20, sequenceEndFrame = 30\<rparr>,
        \<lparr>name = ''shot2'', track = 3, sequenceStartFrame = 5, sequenceEndFrame = 50\<rparr>],
     numTracks = 3\<rparr>"
  have pos: "0 < numTracks ?free" "0 < numTracks ?busy" by simp_all
  have valid: "track_indices_valid ?free" "track_indices_valid ?busy"
    by (simp_all add: track_indices_valid_def)
  note free = find_track_returns_none_or_one [of ?free 0 10, THEN mp, OF pos(1)]
  note busy = find_track_returns_none_or_one [of ?busy 0 10, THEN mp, OF pos(2)]
  have "find_track_with_free_range 0 10 ?free = Inr (Some 1)"
    using free [THEN conjunct1] by (simp add: track_ok_def overlaps_def)
  moreover have "find_track_with_free_range 0 10 ?busy = Inr None"
    using busy [THEN conjunct1] by (simp add: track_ok_def overlaps_def)
  moreover have "find_track_with_free_range 0 10 ?busy = Inr None \<or>
      find_track_with_free_range 0 10 ?busy = Inr (Some 1)"
    using busy [THEN conjunct2, THEN conjunct2, THEN mp, OF valid(2)] .
  ultimately show ?thesis using valid(1) by blast
qed

section \<open>Properties of the UDIM path resolver\<close>

lemma udim_no_token:
  "\<not> re_match UDIM_EXTENSION_PATTERN path \<Longrightarrow>
   \<not> str_contains UDIM_UV_PATTERN (lower path) \<Longrightarrow>
   \<not> re_match ([Star Dot] @ UDIM_UV_RE_PATTERN @ [Star Dot]) path \<Longrightarrow>
   udim_path_start_length extension path = Inr None"
  by (simp add: udim_path_start_length_def)

lemma get_udim_filepaths_none:
  "udim_path_start_length (snd (splitext (flavour fs) path)) path = Inr None \<Longrightarrow>
   get_udim_filepaths path fs = (Inr [], fs)"
  by (simp add: get_udim_filepaths_def)

lemma get_udim_filepaths_zero:
  "udim_path_start_length (snd (splitext (flavour fs) path)) path = Inr (Some 0) \<Longrightarrow>
   get_udim_filepaths path fs = (Inr [], fs)"
  by (simp add: get_udim_filepaths_def)

lemma re_match_literal:
  "re_match (map (\<lambda>c. One (Lit c)) lit @ ps) s =
     (startswith s lit \<and> re_match ps (drop (length lit) s))"
proof (induction lit arbitrary: s)
  case Nil
  show ?case by simp
next
  case (Cons a lit)
  show ?case by (cases s) (auto simp: Cons.IH)
qed

lemma re_match_star_only: "re_match [Star a] s"
  by (induction s) simp_all

lemma re_match_append_star: "re_match ps s \<Longrightarrow> re_match (ps @ [Star a]) s"
  by (induction ps s rule: re_match.induct) (auto simp: re_match_star_only)

lemma re_match_cons_star: "re_match ps s \<Longrightarrow> re_match (Star a # ps) s"
  by (cases s) simp_all

lemma re_split_head_match: "re_match p s \<Longrightarrow> re_split_head p s = []"
  by (cases s) simp_all

text \<open>
  \<^verbatim>\<open>match\<close> anchors the pattern at the start of the path: the first branch is taken only
  by a path that begins with \<^verbatim>\<open>.1001.\<close>.
\<close>

lemma extension_branch_needs_prefix:
  "re_match UDIM_EXTENSION_PATTERN path \<Longrightarrow> startswith path ''.1001.''"
  unfolding UDIM_EXTENSION_PATTERN_def re_match_literal by simp

lemma lower_tex: "lower ''tex.1001.exr'' = ''tex.1001.exr''"
  by (simp add: lower_def lower_char_def)

lemma tex_no_extension_match: "\<not> re_match UDIM_EXTENSION_PATTERN ''tex.1001.exr''"
  by (simp add: UDIM_EXTENSION_PATTERN_def)

lemma tex_no_uv_token: "\<not> str_contains UDIM_UV_PATTERN (lower ''tex.1001.exr'')"
  by (simp add: lower_tex str_contains_def UDIM_UV_PATTERN_def)

lemma tex_no_uv_match:
  "\<not> re_match ([Star Dot] @ UDIM_UV_RE_PATTERN @ [Star Dot]) ''tex.1001.exr''"
  by (simp add: UDIM_UV_RE_PATTERN_def)

lemma lower_EXR: "lower ''.1001.EXR'' = ''.1001.exr''"
  by (simp add: lower_def lower_char_def)

lemma EXR_extension_match: "re_match UDIM_EXTENSION_PATTERN ''.1001.EXR''"
  by (simp add: UDIM_EXTENSION_PATTERN_def numeral_2_eq_2 numeral_Bit0)

lemma EXR_splitext: "splitext fl ''.1001.EXR'' = (''.1001'', ''.EXR'')"
  by (cases fl) (simp_all add: splitext_def rfind_def)

lemma EXR_index: "str_index ''.1001.exr'' ''1001.EXR'' = Inl ValueError"
  by (simp add: str_index_def)

text \<open>
  Claim C2, on a path the code answers wrongly. \<^verbatim>\<open>tex.1001.exr\<close> ends in \<^verbatim>\<open>1001.exr\<close>, and
  the disk holds \<^verbatim>\<open>tex.1001.exr\<close> and \<^verbatim>\<open>tex.1002.exr\<close>, which \<^verbatim>\<open>glob.glob\<close> reports for
  the pattern \<^verbatim>\<open>tex.*.exr\<close>. The first branch is not taken, since the pattern is tried at
  the start of the path only; no other branch applies, the disk is not read and the
  result is the empty list.
\<close>

theorem get_udim_filepaths_skips_1001_suffix:
  "\<not> re_match UDIM_EXTENSION_PATTERN ''tex.1001.exr'' \<and>
   get_udim_filepaths ''tex.1001.exr''
     \<lparr>flavour = Posix,
      glob_table = (\<lambda>pattern. if pattern = ''tex.*.exr''
                               then [''tex.1001.exr'', ''tex.1002.exr''] else []),
      glob_calls = []\<rparr> =
   (Inr [],
     \<lparr>flavour = Posix,
      glob_table = (\<lambda>pattern. if pattern = ''tex.*.exr''
                               then [''tex.1001.exr'', ''tex.1002.exr''] else []),
      glob_calls = []\<rparr>)"
  by (simp add: get_udim_filepaths_none
      udim_no_token [OF tex_no_extension_match tex_no_uv_token tex_no_uv_match]
      tex_no_extension_match)

text \<open>
  Claim C3, on a path that makes the code raise. \<^verbatim>\<open>.1001.EXR\<close> takes the first branch;
  the extension \<^verbatim>\<open>.EXR\<close> keeps its capitals while the path is lowered, so \<^verbatim>\<open>1001.EXR\<close>
  does not occur in \<^verbatim>\<open>.1001.exr\<close> and \<^verbatim>\<open>index\<close> raises \<^verbatim>\<open>ValueError\<close>, on either
  operating system and whatever the disk holds.
\<close>

theorem get_udim_filepaths_raises_value_error:
  "\<forall>fs. get_udim_filepaths ''.1001.EXR'' fs = (Inl ValueError, fs)"
  by (simp add: get_udim_filepaths_def EXR_splitext udim_path_start_length_def
      EXR_extension_match lower_EXR EXR_index)

text \<open>
  Claim C6: a path on which none of the three tests of the \<^verbatim>\<open>if\<close>/\<^verbatim>\<open>elif\<close> chain
  succeeds gives the empty list, and the disk is not read, whatever it holds.
\<close>

theorem get_udim_filepaths_no_token:
  "\<not> re_match UDIM_EXTENSION_PATTERN path \<and>
   \<not> str_contains UDIM_UV_PATTERN (lower path) \<and>
   \<not> re_match ([Star Dot] @ UDIM_UV_RE_PATTERN @ [Star Dot]) path \<longrightarrow>
   get_udim_filepaths path fs = (Inr [], fs)"
  using get_udim_filepaths_none [of fs path] udim_no_token [of path]
  by simp

theorem get_udim_filepaths_no_token_witness:
  "get_udim_filepaths ''plain.exr''
     \<lparr>flavour = Nt, glob_table = (\<lambda>pattern. [''plain.exr'']), glob_calls = []\<rparr> =
   (Inr [], \<lparr>flavour = Nt, glob_table = (\<lambda>pattern. [''plain.exr'']), glob_calls = []\<rparr>)"
  using get_udim_filepaths_no_token [of "''plain.exr''"
     "\<lparr>flavour = Nt, glob_table = (\<lambda>pattern. [''plain.exr'']), glob_calls = []\<rparr>"]
  by (simp add: UDIM_EXTENSION_PATTERN_def UDIM_UV_RE_PATTERN_def UDIM_UV_PATTERN_def
      str_contains_def lower_def lower_char_def)

text \<open>
  Claim C7: when the offset computed for the path is 0, the function returns the empty
  list and leaves the file system untouched: no pattern is handed to \<^verbatim>\<open>glob.glob\<close>. The
  offset is 0 in particular for every path that begins with a token \<^verbatim>\<open>_u<digit>_v<digit>\<close>
  and does not contain \<^verbatim>\<open>_u<u>_v<v>\<close>, such as \<^verbatim>\<open>_u1_v1.exr\<close>.
\<close>

theorem get_udim_filepaths_zero_offset:
  "(udim_path_start_length (snd (splitext (flavour fs) path)) path = Inr (Some 0) \<longrightarrow>
      get_udim_filepaths path fs = (Inr [], fs) \<and>
      glob_calls (snd (get_udim_filepaths path fs)) = glob_calls fs) \<and>
   (re_match UDIM_UV_RE_PATTERN path \<and> \<not> str_contains UDIM_UV_PATTERN (lower path) \<longrightarrow>
      udim_path_start_length (snd (splitext (flavour fs) path)) path = Inr (Some 0))"
proof (intro conjI impI)
  assume zero: "udim_path_start_length (snd (splitext (flavour fs) path)) path = Inr (Some 0)"
  have "get_udim_filepaths path fs = (Inr [], fs)"
    using get_udim_filepaths_zero [OF zero] by simp
  then show "get_udim_filepaths path fs = (Inr [], fs)"
    and "glob_calls (snd (get_udim_filepaths path fs)) = glob_calls fs"
    by simp_all
next
  assume tok: "re_match UDIM_UV_RE_PATTERN path \<and> \<not> str_contains UDIM_UV_PATTERN (lower path)"
  then obtain c cs where path: "path = c # cs" and c: "c = CHR ''_''"
    by (cases path) (auto simp: UDIM_UV_RE_PATTERN_def)
  have no_ext: "\<not> re_match UDIM_EXTENSION_PATTERN path"
    using extension_branch_needs_prefix [of path] by (auto simp: path c)
  have branch: "re_match ([Star Dot] @ UDIM_UV_RE_PATTERN @ [Star Dot]) path"
    using tok by (simp add: re_match_append_star re_match_cons_star)
  have head: "re_split_head UDIM_UV_RE_PATTERN path = []"
    using tok by (simp add: re_split_head_match)
  show "udim_path_start_length (snd (splitext (flavour fs) path)) path = Inr (Some 0)"
    using tok no_ext branch head by (simp add: udim_path_start_length_def)
qed

theorem get_udim_filepaths_zero_offset_witness:
  "get_udim_filepaths ''_u1_v1.exr''
     \<lparr>flavour = Posix, glob_table = (\<lambda>pattern. [''_u1_v1.exr'', ''_u1_v2.exr'']),
      glob_calls = []\<rparr> =
   (Inr [], \<lparr>flavour = Posix, glob_table = (\<lambda>pattern. [''_u1_v1.exr'', ''_u1_v2.exr'']),
      glob_calls = []\<rparr>) \<and>
   udim_path_start_length ''.exr'' ''_u1_v1.exr'' = Inr (Some 0)"
  using get_udim_filepaths_zero_offset [of
     "\<lparr>flavour = Posix, glob_table = (\<lambda>pattern. [''_u1_v1.exr'', ''_u1_v2.exr'']),
      glob_calls = []\<rparr>" "''_u1_v1.exr''"]
  by (simp add: UDIM_UV_RE_PATTERN_def UDIM_UV_PATTERN_def
      str_contains_def lower_def lower_char_def splitext_def rfind_def)

text \<open>
  Claim C8: the list returned depends on the path, the operating system and the answers of
  \<^verbatim>\<open>glob.glob\<close> only; a run changes none of them, so a second run on the state the first
  one leaves returns the same list.
\<close>

theorem get_udim_filepaths_deterministic:
  "(flavour fs1 = flavour fs2 \<and> glob_table fs1 = glob_table fs2 \<longrightarrow>
      fst (get_udim_filepaths path fs1) = fst (get_udim_filepaths path fs2)) \<and>
   flavour (snd (get_udim_filepaths path fs)) = flavour fs \<and>
   glob_table (snd (get_udim_filepaths path fs)) = glob_table fs \<and>
   fst (get_udim_filepaths path (snd (get_udim_filepaths path fs))) =
     fst (get_udim_filepaths path fs)"
proof -
  have dep: "fst (get_udim_filepaths path a) = fst (get_udim_filepaths path b)"
    if "flavour a = flavour b" and "glob_table a = glob_table b" for a b
    using that
    by (simp add: get_udim_filepaths_def glob_glob_def Let_def split: sum.splits option.splits)
  have keep: "flavour (snd (get_udim_filepaths path fs)) = flavour fs \<and>
      glob_table (snd (get_udim_filepaths path fs)) = glob_table fs"
    by (simp add: get_udim_filepaths_def glob_glob_def Let_def split: sum.splits option.splits)
  from dep [of fs1 fs2] dep [of "snd (get_udim_filepaths path fs)" fs] keep
  show ?thesis by simp
qed

theorem get_udim_filepaths_deterministic_witness:
  "fst (get_udim_filepaths ''tex_u1_v1.exr''
     \<lparr>flavour = Nt,
      glob_table = (\<lambda>pattern. if pattern = ''tex*.exr''
         then [''tex_u1_v1.exr'', [CHR ''d'', CHR 0x5C] @ ''tex_u1_v2.exr''] else []),
      glob_calls = []\<rparr>) =
   fst (get_udim_filepaths ''tex_u1_v1.exr''
     \<lparr>flavour = Nt,
      glob_table = (\<lambda>pattern. if pattern = ''tex*.exr''
         then [''tex_u1_v1.exr'', [CHR ''d'', CHR 0x5C] @ ''tex_u1_v2.exr''] else []),
      glob_calls = [''tex*.exr'']\<rparr>) \<and>
   fst (get_udim_filepaths ''tex_u1_v1.exr''
     \<lparr>flavour = Nt,
      glob_table = (\<lambda>pattern. if pattern = ''tex*.exr''
         then [''tex_u1_v1.exr'', [CHR ''d'', CHR 0x5C] @ ''tex_u1_v2.exr''] else []),
      glob_calls = []\<rparr>) = Inr [''tex_u1_v1.exr'', ''d/tex_u1_v2.exr'']"
  using get_udim_filepaths_deterministic [THEN conjunct1, of
     "\<lparr>flavour = Nt,
      glob_table = (\<lambda>pattern. if pattern = ''tex*.exr''
         then [''tex_u1_v1.exr'', [CHR ''d'', CHR 0x5C] @ ''tex_u1_v2.exr''] else []),
      glob_calls = []\<rparr>"
     "\<lparr>flavour = Nt,
      glob_table = (\<lambda>pattern. if pattern = ''tex*.exr''
         then [''tex_u1_v1.exr'', [CHR ''d'', CHR 0x5C] @ ''tex_u1_v2.exr''] else []),
      glob_calls = [''tex*.exr'']\<rparr>" "''tex_u1_v1.exr''"]
  by (simp add: get_udim_filepaths_def glob_glob_def udim_path_start_length_def Let_def
      UDIM_EXTENSION_PATTERN_def UDIM_UV_RE_PATTERN_def UDIM_UV_PATTERN_def
      str_contains_def lower_def lower_char_def splitext_def rfind_def str_replace_char_def)

end
